theory Spec2Isabelle
  imports Main
begin

section \<open>Python values and exceptions\<close>

text \<open>
  The module \<^verbatim>\<open>google/cloud/ndb/query.py\<close> dispatches on the run-time class of its
  arguments with \<^verbatim>\<open>isinstance\<close>. The arguments are therefore modelled as values of a
  closed datatype with one constructor per class the module tests for and one,
  \<open>PyOther\<close>, for an object of any other class.

  The exceptions are the classes the module raises: \<^verbatim>\<open>TypeError\<close>,
  \<^verbatim>\<open>ValueError\<close>, \<^verbatim>\<open>NotImplementedError\<close> and
  \<^verbatim>\<open>_exceptions.BadArgumentError\<close>. The specification names them by category:
  its \<^emph>\<open>InvalidArgument\<close> covers what the module raises as \<^verbatim>\<open>TypeError\<close> (and
  \<^verbatim>\<open>ValueError\<close> for an incomplete ancestor), its \<^emph>\<open>NotSupportedError\<close> is
  \<^verbatim>\<open>NotImplementedError\<close>. Messages are not modelled.
\<close>

datatype error = TypeError | ValueError | NotImplementedError | BadArgumentError

text \<open>
  \<^verbatim>\<open>model.Key\<close> is imported from a module that is not among the sources. The module
  reads three things of a key: \<^verbatim>\<open>id()\<close> (a string, an integer or \<^verbatim>\<open>None\<close>),
  \<^verbatim>\<open>app()\<close> (a string) and \<^verbatim>\<open>namespace()\<close> (a string or \<^verbatim>\<open>None\<close>). A key is
  modelled by what these three methods return.
\<close>

datatype key_id = IntId int | StrId string

datatype Key = Key (Key_id: "key_id option") (Key_app: string) (Key_namespace: "string option")

text \<open>
  The classes of the filter tree. In this module each of them has a constructor that raises
  \<^verbatim>\<open>NotImplementedError\<close>; an instance can still reach \<^verbatim>\<open>Query\<close> (made by a
  subclass, or without calling the constructor), and \<^verbatim>\<open>isinstance(filters, Node)\<close> holds
  for an instance of any of them.
\<close>

datatype node_class =
  Node | FalseNode | ParameterNode | FilterNode | PostFilterNode | ConjunctionNode | DisjunctionNode

text \<open>
  \<open>PyBool\<close> is separate from \<open>PyInt\<close> because the object is stored and handed back as it
  is, but \<^verbatim>\<open>bool\<close> is a subclass of \<^verbatim>\<open>int\<close>: \<^verbatim>\<open>isinstance(True, int)\<close> holds.
  \<open>PyParameterizedFunction\<close> carries the \<^verbatim>\<open>func\<close> attribute, \<open>PyProperty\<close> the
  \<^verbatim>\<open>_name\<close> attribute of a \<^verbatim>\<open>model.Property\<close>; \<open>PyOther\<close> carries the truth value
  of the object (a float, a dict, a set, ...), the only thing the module asks of it.
\<close>

datatype pyval =
    PyNone
  | PyBool bool
  | PyInt int
  | PyStr string
  | PyBytes string
  | PyList "pyval list"
  | PyTuple "pyval list"
  | PyParameter parameter
  | PyParameterizedFunction string
  | PyKey Key
  | PyNode node_class
  | PyProperty string
  | PyOther bool
and parameter = Parameter (Parameter_key: pyval)

text \<open>\<^verbatim>\<open>isinstance(v, (int, str, bytes))\<close>.\<close>

definition isinstance_int_str_bytes :: "pyval \<Rightarrow> bool" where
  "isinstance_int_str_bytes v =
     (case v of PyBool _ \<Rightarrow> True | PyInt _ \<Rightarrow> True | PyStr _ \<Rightarrow> True | PyBytes _ \<Rightarrow> True
      | _ \<Rightarrow> False)"

text \<open>\<^verbatim>\<open>isinstance(v, (list, tuple))\<close>, and the elements of such a value.\<close>

definition isinstance_list_tuple :: "pyval \<Rightarrow> bool" where
  "isinstance_list_tuple v = (case v of PyList _ \<Rightarrow> True | PyTuple _ \<Rightarrow> True | _ \<Rightarrow> False)"

definition elements :: "pyval \<Rightarrow> pyval list" where
  "elements v = (case v of PyList xs \<Rightarrow> xs | PyTuple xs \<Rightarrow> xs | _ \<Rightarrow> [])"

text \<open>\<^verbatim>\<open>isinstance(v, Node)\<close>.\<close>

definition isinstance_Node :: "pyval \<Rightarrow> bool" where
  "isinstance_Node v = (case v of PyNode _ \<Rightarrow> True | _ \<Rightarrow> False)"

text \<open>
  Python's truth value, as \<^verbatim>\<open>not v\<close> tests it: \<^verbatim>\<open>None\<close>, \<^verbatim>\<open>False\<close>, zero and
  the empty string, bytes, list and tuple are false; an object of a class that defines
  neither \<^verbatim>\<open>__bool__\<close> nor \<^verbatim>\<open>__len__\<close> is true.
\<close>

definition truthy :: "pyval \<Rightarrow> bool" where
  "truthy v =
     (case v of
        PyNone \<Rightarrow> False
      | PyBool b \<Rightarrow> b
      | PyInt i \<Rightarrow> i \<noteq> 0
      | PyStr s \<Rightarrow> s \<noteq> []
      | PyBytes s \<Rightarrow> s \<noteq> []
      | PyList xs \<Rightarrow> xs \<noteq> []
      | PyTuple xs \<Rightarrow> xs \<noteq> []
      | PyOther b \<Rightarrow> b
      | _ \<Rightarrow> True)"

text \<open>The truth value of what \<^verbatim>\<open>Key.id()\<close> returns.\<close>

definition id_truthy :: "key_id option \<Rightarrow> bool" where
  "id_truthy i =
     (case i of None \<Rightarrow> False | Some (IntId n) \<Rightarrow> n \<noteq> 0 | Some (StrId s) \<Rightarrow> s \<noteq> [])"

text \<open>
  Python's \<^verbatim>\<open>==\<close> on the values a parameter key can be (integers, booleans, strings,
  bytes): integers and booleans compare by number (\<^verbatim>\<open>True == 1\<close>), values of different
  kinds are unequal. A dict finds a key by the same equality, so a dict is a map that is
  read and written at \<open>dict_key k\<close>, which sends a boolean to its number.
\<close>

definition int_value :: "pyval \<Rightarrow> int option" where
  "int_value v =
     (case v of PyBool b \<Rightarrow> Some (if b then 1 else 0) | PyInt i \<Rightarrow> Some i | _ \<Rightarrow> None)"

definition key_eq :: "pyval \<Rightarrow> pyval \<Rightarrow> bool" where
  "key_eq a b =
     (case (int_value a, int_value b) of
        (Some i, Some j) \<Rightarrow> i = j
      | (None, None) \<Rightarrow> a = b
      | _ \<Rightarrow> False)"

definition dict_key :: "pyval \<Rightarrow> pyval" where
  "dict_key k = (case k of PyBool b \<Rightarrow> PyInt (if b then 1 else 0) | _ \<Rightarrow> k)"

section \<open>Parameter\<close>

text \<open>
  \<^verbatim>\<open>
  def __init__(self, key):
      if not isinstance(key, (int, str, bytes)):
          raise TypeError(...)
      self._key = key
  \<close>
  The property \<^verbatim>\<open>key\<close> returns \<^verbatim>\<open>self._key\<close>: it is the selector \<open>Parameter_key\<close>.
\<close>

definition Parameter_init :: "pyval \<Rightarrow> error + parameter" where
  "Parameter_init key =
     (if \<not> isinstance_int_str_bytes key then Inl TypeError else Inr (Parameter key))"

text \<open>
  \<^verbatim>\<open>
  def __eq__(self, other):
      if not isinstance(other, Parameter):
          return NotImplemented
      return self._key == other._key
  \<close>
  \<open>None\<close> stands for \<^verbatim>\<open>NotImplemented\<close>.
\<close>

definition Parameter_eq :: "parameter \<Rightarrow> pyval \<Rightarrow> bool option" where
  "Parameter_eq self other =
     (case other of
        PyParameter p \<Rightarrow> Some (key_eq (Parameter_key self) (Parameter_key p))
      | _ \<Rightarrow> None)"

text \<open>
  The expression \<^verbatim>\<open>self == other\<close> for a parameter \<^verbatim>\<open>self\<close>: the result of
  \<^verbatim>\<open>__eq__\<close>, and when that is \<^verbatim>\<open>NotImplemented\<close> (the other object is not a
  parameter, and none of the other classes modelled here compares itself to a parameter)
  the comparison by identity, which is false for two different objects.
\<close>

definition operator_eq :: "parameter \<Rightarrow> pyval \<Rightarrow> bool" where
  "operator_eq self other = (case Parameter_eq self other of Some b \<Rightarrow> b | None \<Rightarrow> False)"

text \<open>
  \<^verbatim>\<open>
  def __ne__(self, other):
      return not self == other
  \<close>
  inherited from \<^verbatim>\<open>ParameterizedThing\<close>.
\<close>

definition ParameterizedThing_ne :: "parameter \<Rightarrow> pyval \<Rightarrow> bool" where
  "ParameterizedThing_ne self other = (\<not> operator_eq self other)"

text \<open>
  \<^verbatim>\<open>
  def resolve(self, bindings, used):
      key = self._key
      if key not in bindings:
          raise _exceptions.BadArgumentError(...)
      value = bindings[key]
      used[key] = True
      return value
  \<close>
  \<^verbatim>\<open>used\<close> is mutated in place, so the model returns it next to the outcome, also when
  the call raises.
\<close>

definition Parameter_resolve ::
  "parameter \<Rightarrow> (pyval \<rightharpoonup> 'v) \<Rightarrow> (pyval \<rightharpoonup> bool) \<Rightarrow> (error + 'v) \<times> (pyval \<rightharpoonup> bool)" where
  "Parameter_resolve self bindings used =
     (let key = Parameter_key self in
      case bindings (dict_key key) of
        None \<Rightarrow> (Inl BadArgumentError, used)
      | Some v \<Rightarrow> (Inr v, used(dict_key key \<mapsto> True)))"

section \<open>The filter tree\<close>

text \<open>
  \<^verbatim>\<open>
  class FalseNode(Node):
      def __init__(self, *args, **kwargs):
          raise NotImplementedError

  class ConjunctionNode(Node):
      def __init__(self, *args, **kwargs):
          raise NotImplementedError

  AND = ConjunctionNode
  \<close>
  A constructor call takes the positional and the keyword arguments and returns the new
  instance or the exception raised.
\<close>

definition FalseNode_init :: "pyval list \<Rightarrow> (string \<times> pyval) list \<Rightarrow> error + pyval" where
  "FalseNode_init args kwargs = Inl NotImplementedError"

definition ConjunctionNode_init :: "pyval list \<Rightarrow> (string \<times> pyval) list \<Rightarrow> error + pyval" where
  "ConjunctionNode_init args kwargs = Inl NotImplementedError"

definition AND :: "pyval list \<Rightarrow> (string \<times> pyval) list \<Rightarrow> error + pyval" where
  "AND = ConjunctionNode_init"

section \<open>Query\<close>

text \<open>
  The keyword arguments of \<^verbatim>\<open>Query.__init__\<close>. \<^verbatim>\<open>kind\<close>, \<^verbatim>\<open>app\<close> and
  \<^verbatim>\<open>namespace\<close> are not type-checked by the constructor; they have the type its
  docstring gives them, \<^verbatim>\<open>Optional[str]\<close>. The others are checked with
  \<^verbatim>\<open>isinstance\<close> and can be any value.
\<close>

record query_args =
  kind :: "string option"
  ancestor :: pyval
  filters :: pyval
  orders :: pyval
  app :: "string option"
  namespace :: "string option"
  default_options :: pyval
  projection :: pyval
  group_by :: pyval

text \<open>The attributes \<^verbatim>\<open>_kind\<close>, \<^verbatim>\<open>_ancestor\<close>, ... of a constructed query.\<close>

record query =
  q_kind :: "string option"
  q_ancestor :: pyval
  q_filters :: pyval
  q_orders :: pyval
  q_app :: "string option"
  q_namespace :: "string option"
  q_default_options :: pyval
  q_projection :: pyval
  q_group_by :: pyval

text \<open>
  \<^verbatim>\<open>model.Model._kind_map\<close> and \<^verbatim>\<open>modelclass._check_properties\<close> belong to a module
  that is not among the sources. They are parameters of the model: a model class is its
  \<^verbatim>\<open>_check_properties\<close> method, which takes the property names and returns or raises;
  the registry maps a kind to its model class.
\<close>

type_synonym modelclass = "string list \<Rightarrow> error + unit"

type_synonym kind_map = "string \<rightharpoonup> modelclass"

text \<open>
  Modelled from the spec: \<^verbatim>\<open>Model._check_properties\<close> is missing from the sources. The
  specification says of it that every name is checked against the kind's registered
  property set and that an unknown property name fails. \<open>props\<close> is the registered
  property set of the kind and \<open>e\<close> the exception an unknown name raises (the
  specification's InvalidArgument; its Python class is not in the sources).
\<close>

definition registered_check_properties :: "error \<Rightarrow> string list \<Rightarrow> modelclass" where
  "registered_check_properties e props fixed =
     (if list_all (\<lambda>name. name \<in> set props) fixed then Inr () else Inl e)"

text \<open>
  \<^verbatim>\<open>
  def _validate_ancestor(ancestor, app, namespace):
      if ancestor is None:
          return ancestor
      if isinstance(ancestor, ParameterizedThing):
          if (isinstance(ancestor, ParameterizedFunction) and ancestor.func != "key"):
              raise TypeError("ancestor cannot be a GQL function other than KEY")
          return ancestor
      if not isinstance(ancestor, model.Key):
          raise TypeError(...)
      if not ancestor.id():
          raise ValueError("ancestor cannot be an incomplete key")
      if app is not None and app != ancestor.app():
          raise TypeError("app/ancestor mismatch")
      if namespace is not None and namespace != ancestor.namespace():
          raise TypeError("namespace/ancestor mismatch")
      return ancestor
  \<close>
\<close>

definition validate_ancestor :: "pyval \<Rightarrow> string option \<Rightarrow> string option \<Rightarrow> error + pyval" where
  "validate_ancestor anc ap ns =
     (case anc of
        PyNone \<Rightarrow> Inr anc
      | PyParameter _ \<Rightarrow> Inr anc
      | PyParameterizedFunction func \<Rightarrow> (if func \<noteq> ''key'' then Inl TypeError else Inr anc)
      | PyKey k \<Rightarrow>
          (if \<not> id_truthy (Key_id k) then Inl ValueError
           else if ap \<noteq> None \<and> ap \<noteq> Some (Key_app k) then Inl TypeError
           else if ns \<noteq> None \<and> ns \<noteq> Key_namespace k then Inl TypeError
           else Inr anc)
      | _ \<Rightarrow> Inl TypeError)"

text \<open>
  \<^verbatim>\<open>
  def _validate_filters(filters):
      if filters is not None and not isinstance(filters, Node):
          raise TypeError(...)
      return filters
  \<close>
\<close>

definition validate_filters :: "pyval \<Rightarrow> error + pyval" where
  "validate_filters f =
     (if f \<noteq> PyNone \<and> \<not> isinstance_Node f then Inl TypeError else Inr f)"

text \<open>
  \<^verbatim>\<open>
  def _validate_orders(orders):
      if orders is not None:
          raise NotImplementedError("Missing datastore_query.Order")
      return orders

  def _validate_default_options(default_options):
      if default_options is not None:
          raise NotImplementedError("Missing datastore_rpc.BaseConfiguration")
      return default_options
  \<close>
\<close>

definition validate_orders :: "pyval \<Rightarrow> error + pyval" where
  "validate_orders ords = (if ords \<noteq> PyNone then Inl NotImplementedError else Inr ords)"

definition validate_default_options :: "pyval \<Rightarrow> error + pyval" where
  "validate_default_options opts = (if opts \<noteq> PyNone then Inl NotImplementedError else Inr opts)"

text \<open>
  \<^verbatim>\<open>
  def _validate_namespace(namespace, ancestor):
      if namespace is None and isinstance(ancestor, model.Key):
          namespace = ancestor.namespace()
      return namespace
  \<close>
\<close>

definition validate_namespace :: "string option \<Rightarrow> pyval \<Rightarrow> string option" where
  "validate_namespace ns anc =
     (case (ns, anc) of (None, PyKey k) \<Rightarrow> Key_namespace k | _ \<Rightarrow> ns)"

text \<open>
  \<^verbatim>\<open>
  def _to_property_names(properties):
      if not isinstance(properties, (list, tuple)):
          properties = [properties]  # It will be type-checked below.
      fixed = []
      for prop in properties:
          if isinstance(prop, str):
              fixed.append(prop)
          elif isinstance(prop, model.Property):
              fixed.append(prop._name)
          else:
              raise TypeError(...)
      return fixed
  \<close>
  The loop is \<open>to_property_names_loop\<close>, with \<open>fixed\<close> as its accumulator.
\<close>

fun to_property_names_loop :: "pyval list \<Rightarrow> string list \<Rightarrow> error + string list" where
  "to_property_names_loop [] fixed = Inr fixed"
| "to_property_names_loop (prop # rest) fixed =
     (case prop of
        PyStr s \<Rightarrow> to_property_names_loop rest (fixed @ [s])
      | PyProperty name \<Rightarrow> to_property_names_loop rest (fixed @ [name])
      | _ \<Rightarrow> Inl TypeError)"

definition to_property_names :: "pyval \<Rightarrow> error + string list" where
  "to_property_names properties =
     to_property_names_loop
       (if \<not> isinstance_list_tuple properties then [properties] else elements properties) []"

text \<open>
  \<^verbatim>\<open>
  def _check_properties(fixed, kind, **kwargs):
      modelclass = model.Model._kind_map.get(kind)
      if modelclass is not None:
          modelclass._check_properties(fixed, **kwargs)
  \<close>
  The registry is keyed by kind names, so the kind \<^verbatim>\<open>None\<close> is not in it.
\<close>

definition check_properties :: "kind_map \<Rightarrow> string list \<Rightarrow> string option \<Rightarrow> error + unit" where
  "check_properties km fixed knd =
     (case (case knd of None \<Rightarrow> None | Some name \<Rightarrow> km name) of
        None \<Rightarrow> Inr ()
      | Some modelclass \<Rightarrow> modelclass fixed)"

text \<open>
  \<^verbatim>\<open>
  def _validate_projection(self, projection, kind):
      if projection is None:
          return None
      if not projection:
          raise TypeError("projection argument cannot be empty")
      if not isinstance(projection, (tuple, list)):
          raise TypeError(...)
      self._check_properties(self._to_property_names(projection), kind)
      return tuple(projection)
  \<close>
  and \<^verbatim>\<open>_validate_group_by\<close>, which is the same function of \<^verbatim>\<open>group_by\<close>.
\<close>

definition validate_projection :: "kind_map \<Rightarrow> pyval \<Rightarrow> string option \<Rightarrow> error + pyval" where
  "validate_projection km proj knd =
     (if proj = PyNone then Inr PyNone
      else if \<not> truthy proj then Inl TypeError
      else if \<not> isinstance_list_tuple proj then Inl TypeError
      else
        (case to_property_names proj of
           Inl e \<Rightarrow> Inl e
         | Inr fixed \<Rightarrow>
             (case check_properties km fixed knd of
                Inl e \<Rightarrow> Inl e
              | Inr _ \<Rightarrow> Inr (PyTuple (elements proj)))))"

definition validate_group_by :: "kind_map \<Rightarrow> pyval \<Rightarrow> string option \<Rightarrow> error + pyval" where
  "validate_group_by km grp knd =
     (if grp = PyNone then Inr PyNone
      else if \<not> truthy grp then Inl TypeError
      else if \<not> isinstance_list_tuple grp then Inl TypeError
      else
        (case to_property_names grp of
           Inl e \<Rightarrow> Inl e
         | Inr fixed \<Rightarrow>
             (case check_properties km fixed knd of
                Inl e \<Rightarrow> Inl e
              | Inr _ \<Rightarrow> Inr (PyTuple (elements grp)))))"

text \<open>
  \<^verbatim>\<open>
  def __init__(self, *, kind=None, ancestor=None, filters=None, orders=None, app=None,
               namespace=None, default_options=None, projection=None, group_by=None):
      self._kind = kind
      self._ancestor = self._validate_ancestor(ancestor, app, namespace)
      self._filters = self._validate_filters(filters)
      self._orders = self._validate_orders(orders)
      self._app = app
      self._namespace = self._validate_namespace(namespace, ancestor)
      self._default_options = self._validate_default_options(default_options)
      self._projection = self._validate_projection(projection, self._kind)
      self._group_by = self._validate_group_by(group_by, self._kind)
  \<close>
  The validators run in this order and the first exception leaves the constructor.
\<close>

definition Query_init :: "kind_map \<Rightarrow> query_args \<Rightarrow> error + query" where
  "Query_init km a =
     (case validate_ancestor (ancestor a) (app a) (namespace a) of
        Inl e \<Rightarrow> Inl e
      | Inr anc \<Rightarrow>
     (case validate_filters (filters a) of
        Inl e \<Rightarrow> Inl e
      | Inr flt \<Rightarrow>
     (case validate_orders (orders a) of
        Inl e \<Rightarrow> Inl e
      | Inr ords \<Rightarrow>
     (let ns = validate_namespace (namespace a) (ancestor a) in
      case validate_default_options (default_options a) of
        Inl e \<Rightarrow> Inl e
      | Inr opts \<Rightarrow>
     (case validate_projection km (projection a) (kind a) of
        Inl e \<Rightarrow> Inl e
      | Inr proj \<Rightarrow>
     (case validate_group_by km (group_by a) (kind a) of
        Inl e \<Rightarrow> Inl e
      | Inr grp \<Rightarrow>
          Inr \<lparr>q_kind = kind a, q_ancestor = anc, q_filters = flt, q_orders = ords,
               q_app = app a, q_namespace = ns, q_default_options = opts,
               q_projection = proj, q_group_by = grp\<rparr>))))))"

text \<open>The call \<^verbatim>\<open>Query()\<close> with no argument: every keyword has its default, \<^verbatim>\<open>None\<close>.\<close>

definition default_args :: query_args where
  "default_args =
     \<lparr>kind = None, ancestor = PyNone, filters = PyNone, orders = PyNone, app = None,
      namespace = None, default_options = PyNone, projection = PyNone, group_by = PyNone\<rparr>"




section \<open>Lemmas about the validators\<close>

lemma int_value_dict_key:
  "isinstance_int_str_bytes a \<Longrightarrow> isinstance_int_str_bytes b \<Longrightarrow>
   key_eq a b \<longleftrightarrow> dict_key a = dict_key b"
  by (auto simp: isinstance_int_str_bytes_def key_eq_def int_value_def dict_key_def
      split: pyval.splits)

lemma validate_ancestor_Inr: "validate_ancestor anc ap ns = Inr v \<Longrightarrow> v = anc"
  by (auto simp: validate_ancestor_def split: pyval.splits if_splits)

lemma validate_ancestor_Inl:
  "validate_ancestor anc ap ns = Inl e \<Longrightarrow> e = TypeError \<or> e = ValueError"
  by (auto simp: validate_ancestor_def split: pyval.splits if_splits)

lemma validate_ancestor_Key:
  "validate_ancestor (PyKey k) ap ns =
     (if \<not> id_truthy (Key_id k) then Inl ValueError
      else if ap \<noteq> None \<and> ap \<noteq> Some (Key_app k) then Inl TypeError
      else if ns \<noteq> None \<and> ns \<noteq> Key_namespace k then Inl TypeError
      else Inr (PyKey k))"
  by (simp add: validate_ancestor_def)

lemma validate_filters_Inr: "validate_filters f = Inr v \<Longrightarrow> v = f \<and> (f = PyNone \<or> isinstance_Node f)"
  by (auto simp: validate_filters_def split: if_splits)

lemma validate_orders_Inr: "validate_orders x = Inr v \<Longrightarrow> x = PyNone \<and> v = PyNone"
  by (auto simp: validate_orders_def split: if_splits)

lemma validate_default_options_Inr:
  "validate_default_options x = Inr v \<Longrightarrow> x = PyNone \<and> v = PyNone"
  by (auto simp: validate_default_options_def split: if_splits)









subsection \<open>The constructor runs the validators in order\<close>

lemma Query_init_ancestor_error:
  "validate_ancestor (ancestor a) (app a) (namespace a) = Inl e \<Longrightarrow> Query_init km a = Inl e"
  by (simp add: Query_init_def)

lemma Query_init_filters_error:
  "validate_ancestor (ancestor a) (app a) (namespace a) = Inr v \<Longrightarrow>
   validate_filters (filters a) = Inl e \<Longrightarrow> Query_init km a = Inl e"
  by (simp add: Query_init_def)

lemma Query_init_orders_error:
  "validate_ancestor (ancestor a) (app a) (namespace a) = Inr v \<Longrightarrow>
   validate_filters (filters a) = Inr f \<Longrightarrow>
   validate_orders (orders a) = Inl e \<Longrightarrow> Query_init km a = Inl e"
  by (simp add: Query_init_def)

lemma Query_init_default_options_error:
  "validate_ancestor (ancestor a) (app a) (namespace a) = Inr v \<Longrightarrow>
   validate_filters (filters a) = Inr f \<Longrightarrow>
   validate_orders (orders a) = Inr ords \<Longrightarrow>
   validate_default_options (default_options a) = Inl e \<Longrightarrow> Query_init km a = Inl e"
  by (simp add: Query_init_def)

lemma Query_init_projection_error:
  "validate_ancestor (ancestor a) (app a) (namespace a) = Inr v \<Longrightarrow>
   validate_filters (filters a) = Inr f \<Longrightarrow>
   validate_orders (orders a) = Inr ords \<Longrightarrow>
   validate_default_options (default_options a) = Inr opts \<Longrightarrow>
   validate_projection km (projection a) (kind a) = Inl e \<Longrightarrow> Query_init km a = Inl e"
  by (simp add: Query_init_def)

lemma Query_init_group_by_error:
  "validate_ancestor (ancestor a) (app a) (namespace a) = Inr v \<Longrightarrow>
   validate_filters (filters a) = Inr f \<Longrightarrow>
   validate_orders (orders a) = Inr ords \<Longrightarrow>
   validate_default_options (default_options a) = Inr opts \<Longrightarrow>
   validate_projection km (projection a) (kind a) = Inr proj \<Longrightarrow>
   validate_group_by km (group_by a) (kind a) = Inl e \<Longrightarrow> Query_init km a = Inl e"
  by (simp add: Query_init_def)

lemma Query_init_Inr:
  assumes "Query_init km a = Inr q"
  shows "validate_ancestor (ancestor a) (app a) (namespace a) = Inr (q_ancestor q)"
    and "validate_filters (filters a) = Inr (q_filters q)"
    and "validate_orders (orders a) = Inr (q_orders q)"
    and "validate_default_options (default_options a) = Inr (q_default_options q)"
    and "validate_projection km (projection a) (kind a) = Inr (q_projection q)"
    and "validate_group_by km (group_by a) (kind a) = Inr (q_group_by q)"
    and "q_namespace q = validate_namespace (namespace a) (ancestor a)"
    and "q_kind q = kind a" and "q_app q = app a"
  using assms by (auto simp: Query_init_def Let_def split: sum.splits)

lemma Query_init_success:
  "validate_ancestor (ancestor a) (app a) (namespace a) = Inr anc \<Longrightarrow>
   validate_filters (filters a) = Inr flt \<Longrightarrow>
   validate_orders (orders a) = Inr ords \<Longrightarrow>
   validate_default_options (default_options a) = Inr opts \<Longrightarrow>
   validate_projection km (projection a) (kind a) = Inr proj \<Longrightarrow>
   validate_group_by km (group_by a) (kind a) = Inr grp \<Longrightarrow>
   Query_init km a =
     Inr \<lparr>q_kind = kind a, q_ancestor = anc, q_filters = flt, q_orders = ords,
          q_app = app a, q_namespace = validate_namespace (namespace a) (ancestor a),
          q_default_options = opts, q_projection = proj, q_group_by = grp\<rparr>"
  by (simp add: Query_init_def)



lemmas validators =
  validate_ancestor_def validate_filters_def validate_orders_def validate_default_options_def
  validate_namespace_def validate_projection_def validate_group_by_def to_property_names_def
  check_properties_def registered_check_properties_def truthy_def isinstance_list_tuple_def
  isinstance_Node_def elements_def id_truthy_def

section \<open>Parameter: construction, equality, resolution\<close>

text \<open>
  Claim C3. \<^verbatim>\<open>Parameter(k)\<close> raises \<^verbatim>\<open>TypeError\<close> (the specification's
  InvalidArgument) unless \<open>k\<close> is an integer (a boolean is one), a string or bytes; for
  such a \<open>k\<close> the constructor returns a parameter whose \<^verbatim>\<open>key\<close> property is \<open>k\<close>
  itself.
\<close>

theorem Parameter_init_accepts_int_str_bytes:
  "Parameter_init k =
     (if (\<exists>i. k = PyInt i) \<or> (\<exists>b. k = PyBool b) \<or> (\<exists>s. k = PyStr s) \<or> (\<exists>s. k = PyBytes s)
      then Inr (Parameter k) else Inl TypeError)
   \<and> (\<forall>p. Parameter_init k = Inr p \<longrightarrow> Parameter_key p = k)"
  by (auto simp: Parameter_init_def isinstance_int_str_bytes_def split: pyval.splits)

text \<open>Accepted and rejected keys.\<close>

theorem Parameter_init_accepts_int_str_bytes_witness:
  "Parameter_init (PyStr ''xyz'') = Inr (Parameter (PyStr ''xyz''))
   \<and> Parameter_key (Parameter (PyStr ''xyz'')) = PyStr ''xyz''
   \<and> Parameter_init (PyInt 1) = Inr (Parameter (PyInt 1))
   \<and> Parameter_init (PyBytes ''xyz'') = Inr (Parameter (PyBytes ''xyz''))
   \<and> Parameter_init (PyBool True) = Inr (Parameter (PyBool True))
   \<and> Parameter_init PyNone = Inl TypeError
   \<and> Parameter_init (PyOther True) = Inl TypeError
   \<and> Parameter_init (PyList [PyInt 1]) = Inl TypeError"
  using Parameter_init_accepts_int_str_bytes [of "PyStr ''xyz''"]
    Parameter_init_accepts_int_str_bytes [of "PyInt 1"]
    Parameter_init_accepts_int_str_bytes [of "PyBytes ''xyz''"]
    Parameter_init_accepts_int_str_bytes [of "PyBool True"]
    Parameter_init_accepts_int_str_bytes [of "PyNone"]
    Parameter_init_accepts_int_str_bytes [of "PyOther True"]
    Parameter_init_accepts_int_str_bytes [of "PyList [PyInt 1]"]
  by auto

text \<open>
  Claim C4. For parameters built from the keys \<open>k1\<close> and \<open>k2\<close>,
  \<^verbatim>\<open>Parameter(k1) == Parameter(k2)\<close> holds exactly when \<^verbatim>\<open>k1 == k2\<close>, and \<^verbatim>\<open>!=\<close>
  is the negation of \<^verbatim>\<open>==\<close>. Python's equality of the two keys is the equality of
  their dict keys, and plain equality when neither key is a boolean.
\<close>

theorem Parameter_equality_by_key:
  assumes "Parameter_init k1 = Inr p1" and "Parameter_init k2 = Inr p2"
  shows "(operator_eq p1 (PyParameter p2) \<longleftrightarrow> key_eq k1 k2)
       \<and> (ParameterizedThing_ne p1 (PyParameter p2) \<longleftrightarrow> \<not> operator_eq p1 (PyParameter p2))
       \<and> (key_eq k1 k2 \<longleftrightarrow> dict_key k1 = dict_key k2)
       \<and> ((\<forall>b. k1 \<noteq> PyBool b) \<and> (\<forall>b. k2 \<noteq> PyBool b) \<longrightarrow> (key_eq k1 k2 \<longleftrightarrow> k1 = k2))"
proof -
  from assms have v: "isinstance_int_str_bytes k1" "isinstance_int_str_bytes k2"
    and p: "p1 = Parameter k1" "p2 = Parameter k2"
    by (auto simp: Parameter_init_def split: if_splits)
  have "operator_eq p1 (PyParameter p2) \<longleftrightarrow> key_eq k1 k2"
    by (simp add: p operator_eq_def Parameter_eq_def)
  moreover have "ParameterizedThing_ne p1 (PyParameter p2) \<longleftrightarrow> \<not> operator_eq p1 (PyParameter p2)"
    by (simp add: ParameterizedThing_ne_def)
  moreover have "key_eq k1 k2 \<longleftrightarrow> dict_key k1 = dict_key k2"
    using v by (rule int_value_dict_key)
  moreover have "(\<forall>b. k1 \<noteq> PyBool b) \<and> (\<forall>b. k2 \<noteq> PyBool b) \<longrightarrow> (key_eq k1 k2 \<longleftrightarrow> k1 = k2)"
    using v by (auto simp: isinstance_int_str_bytes_def key_eq_def int_value_def split: pyval.splits)
  ultimately show ?thesis by blast
qed

text \<open>Two parameters with different keys, and two with the same key.\<close>

theorem Parameter_equality_by_key_witness:
  "Parameter_init (PyStr ''a'') = Inr (Parameter (PyStr ''a''))
   \<and> Parameter_init (PyStr ''b'') = Inr (Parameter (PyStr ''b''))
   \<and> \<not> operator_eq (Parameter (PyStr ''a'')) (PyParameter (Parameter (PyStr ''b'')))
   \<and> ParameterizedThing_ne (Parameter (PyStr ''a'')) (PyParameter (Parameter (PyStr ''b'')))
   \<and> operator_eq (Parameter (PyStr ''a'')) (PyParameter (Parameter (PyStr ''a'')))
   \<and> \<not> ParameterizedThing_ne (Parameter (PyStr ''a'')) (PyParameter (Parameter (PyStr ''a'')))"
proof -
  have a: "Parameter_init (PyStr ''a'') = Inr (Parameter (PyStr ''a''))"
    and b: "Parameter_init (PyStr ''b'') = Inr (Parameter (PyStr ''b''))"
    by (simp_all add: Parameter_init_def isinstance_int_str_bytes_def)
  show ?thesis
    using a b Parameter_equality_by_key [OF a b] Parameter_equality_by_key [OF a a]
    by (simp add: dict_key_def)
qed

text \<open>
  Claim C1. For every parameter \<open>p\<close>, bindings and \<open>used\<close>: \<open>p.resolve(bindings, used)\<close>
  raises \<^verbatim>\<open>BadArgumentError\<close> exactly when the key of \<open>p\<close> is not a key of
  \<open>bindings\<close>, and it raises nothing else; when the key is bound to \<open>v\<close>, it returns \<open>v\<close>
  itself, and \<open>used\<close> is afterwards \<open>used\<close> with the key set to \<^verbatim>\<open>True\<close>.
\<close>

theorem Parameter_resolve_contract:
  "(fst (Parameter_resolve p bindings used) = Inl BadArgumentError
      \<longleftrightarrow> dict_key (Parameter_key p) \<notin> dom bindings)
   \<and> ((\<exists>e. fst (Parameter_resolve p bindings used) = Inl e)
      \<longleftrightarrow> dict_key (Parameter_key p) \<notin> dom bindings)
   \<and> (\<forall>v. bindings (dict_key (Parameter_key p)) = Some v \<longrightarrow>
        Parameter_resolve p bindings used = (Inr v, used(dict_key (Parameter_key p) \<mapsto> True)))"
  by (auto simp: Parameter_resolve_def Let_def split: option.splits)

text \<open>
  The scenario of the specification: \<^verbatim>\<open>Parameter("limit").resolve({}, {})\<close> raises, and
  with \<^verbatim>\<open>{"limit": 5}\<close> it returns 5 and marks \<^verbatim>\<open>used["limit"]\<close>. The key
  \<^verbatim>\<open>True\<close> finds the binding of \<^verbatim>\<open>1\<close>.
\<close>

theorem Parameter_resolve_contract_witness:
  "fst (Parameter_resolve (Parameter (PyStr ''limit'')) (Map.empty :: pyval \<rightharpoonup> pyval) Map.empty)
     = Inl BadArgumentError
   \<and> Parameter_resolve (Parameter (PyStr ''limit'')) [PyStr ''limit'' \<mapsto> PyInt 5] Map.empty
     = (Inr (PyInt 5), [PyStr ''limit'' \<mapsto> True])
   \<and> Parameter_resolve (Parameter (PyBool True)) [PyInt 1 \<mapsto> PyStr ''x''] [PyInt 1 \<mapsto> False]
     = (Inr (PyStr ''x''), [PyInt 1 \<mapsto> True])"
  using Parameter_resolve_contract
      [of "Parameter (PyStr ''limit'')" "Map.empty :: pyval \<rightharpoonup> pyval" Map.empty]
    Parameter_resolve_contract
      [of "Parameter (PyStr ''limit'')" "[PyStr ''limit'' \<mapsto> PyInt 5]" Map.empty]
    Parameter_resolve_contract
      [of "Parameter (PyBool True)" "[PyInt 1 \<mapsto> PyStr ''x'']" "[PyInt 1 \<mapsto> False]"]
  by (simp add: dict_key_def)

text \<open>
  Claim C10. When \<^verbatim>\<open>resolve\<close> raises, \<open>used\<close> is left as it was: no entry is added
  or changed. (It raises only \<^verbatim>\<open>BadArgumentError\<close>, and only for an unbound key.)
\<close>

theorem Parameter_resolve_failure_keeps_used:
  "fst (Parameter_resolve p bindings used) = Inl e \<Longrightarrow>
   snd (Parameter_resolve p bindings used) = used \<and> e = BadArgumentError
   \<and> dict_key (Parameter_key p) \<notin> dom bindings"
  by (auto simp: Parameter_resolve_def Let_def split: option.splits)

text \<open>An unbound parameter leaves the entry that \<open>used\<close> already has.\<close>

theorem Parameter_resolve_failure_keeps_used_witness:
  "fst (Parameter_resolve (Parameter (PyStr ''limit'')) [PyStr ''offset'' \<mapsto> PyInt 5]
          [PyStr ''offset'' \<mapsto> True]) = Inl BadArgumentError
   \<and> snd (Parameter_resolve (Parameter (PyStr ''limit'')) [PyStr ''offset'' \<mapsto> PyInt 5]
          [PyStr ''offset'' \<mapsto> True]) = [PyStr ''offset'' \<mapsto> True]"
proof -
  have h: "fst (Parameter_resolve (Parameter (PyStr ''limit'')) [PyStr ''offset'' \<mapsto> PyInt 5]
          [PyStr ''offset'' \<mapsto> True]) = Inl BadArgumentError"
    by (simp add: Parameter_resolve_def dict_key_def)
  show ?thesis
    using h Parameter_resolve_failure_keeps_used [OF h] by simp
qed

section \<open>Query: validation at construction\<close>

text \<open>
  Claim C2. Let the ancestor argument be a key \<open>k\<close>. If the constructor returns a query,
  then \<open>k\<close> has an id, \<^verbatim>\<open>app\<close> is \<^verbatim>\<open>None\<close> or the app of \<open>k\<close>, and
  \<^verbatim>\<open>namespace\<close> is \<^verbatim>\<open>None\<close> or the namespace of \<open>k\<close>. A key without an id makes
  the constructor raise \<^verbatim>\<open>ValueError\<close> (so does any key whose id is false, such as 0: the
  code tests \<^verbatim>\<open>not ancestor.id()\<close>). For a key with a true id, an \<^verbatim>\<open>app\<close> or a
  \<^verbatim>\<open>namespace\<close> that is given and differs from the key's makes the constructor raise
  \<^verbatim>\<open>TypeError\<close>, the specification's InvalidArgument. The ancestor is validated first, so
  these errors do not depend on the other arguments.
\<close>

theorem Query_ancestor_key_validation:
  assumes "ancestor a = PyKey k"
  shows "(\<forall>q. Query_init km a = Inr q \<longrightarrow>
            Key_id k \<noteq> None
          \<and> (app a = None \<or> app a = Some (Key_app k))
          \<and> (namespace a = None \<or> namespace a = Key_namespace k)
          \<and> q_ancestor q = PyKey k)
       \<and> (Key_id k = None \<longrightarrow> Query_init km a = Inl ValueError)
       \<and> (\<not> id_truthy (Key_id k) \<longrightarrow> Query_init km a = Inl ValueError)
       \<and> (id_truthy (Key_id k) \<and> app a \<noteq> None \<and> app a \<noteq> Some (Key_app k)
            \<longrightarrow> Query_init km a = Inl TypeError)
       \<and> (id_truthy (Key_id k) \<and> namespace a \<noteq> None \<and> namespace a \<noteq> Key_namespace k
            \<longrightarrow> Query_init km a = Inl TypeError)"
proof -
  let ?v = "validate_ancestor (ancestor a) (app a) (namespace a)"
  have v: "?v =
     (if \<not> id_truthy (Key_id k) then Inl ValueError
      else if app a \<noteq> None \<and> app a \<noteq> Some (Key_app k) then Inl TypeError
      else if namespace a \<noteq> None \<and> namespace a \<noteq> Key_namespace k then Inl TypeError
      else Inr (PyKey k))"
    by (simp only: assms validate_ancestor_Key)
  have none: "Key_id k \<noteq> None" if "id_truthy (Key_id k)"
    using that by (auto simp: id_truthy_def split: option.splits)
  have 1: "Key_id k \<noteq> None \<and> (app a = None \<or> app a = Some (Key_app k))
          \<and> (namespace a = None \<or> namespace a = Key_namespace k) \<and> q_ancestor q = PyKey k"
    if "Query_init km a = Inr q" for q
  proof -
    from that have "?v = Inr (q_ancestor q)" by (rule Query_init_Inr(1))
    with v have "id_truthy (Key_id k)" and "app a = None \<or> app a = Some (Key_app k)"
      and "namespace a = None \<or> namespace a = Key_namespace k" and "q_ancestor q = PyKey k"
      by (auto split: if_splits)
    with none show ?thesis by blast
  qed
  have 5: "Query_init km a = Inl ValueError" if "\<not> id_truthy (Key_id k)"
  proof -
    from that v have "?v = Inl ValueError" by simp
    then show ?thesis by (rule Query_init_ancestor_error)
  qed
  have 2: "Query_init km a = Inl ValueError" if "Key_id k = None"
    using that none 5 by blast
  have 3: "Query_init km a = Inl TypeError"
    if "id_truthy (Key_id k) \<and> app a \<noteq> None \<and> app a \<noteq> Some (Key_app k)"
  proof -
    from that v have "?v = Inl TypeError" by simp
    then show ?thesis by (rule Query_init_ancestor_error)
  qed
  have 4: "Query_init km a = Inl TypeError"
    if "id_truthy (Key_id k) \<and> namespace a \<noteq> None \<and> namespace a \<noteq> Key_namespace k"
  proof -
    from that v have "?v = Inl TypeError" by simp
    then show ?thesis by (rule Query_init_ancestor_error)
  qed
  from 1 2 3 4 5 show ?thesis by blast
qed

text \<open>An incomplete key, a mismatch of app, a mismatch of namespace, and an accepted key.\<close>

theorem Query_ancestor_key_validation_witness:
  "Query_init Map.empty (default_args\<lparr>ancestor := PyKey (Key None ''app'' None)\<rparr>) = Inl ValueError
   \<and> Query_init Map.empty
        (default_args\<lparr>ancestor := PyKey (Key (Some (IntId 7)) ''app'' (Some ''ns'')),
           app := Some ''other''\<rparr>) = Inl TypeError
   \<and> Query_init Map.empty
        (default_args\<lparr>ancestor := PyKey (Key (Some (IntId 7)) ''app'' (Some ''ns'')),
           namespace := Some ''other''\<rparr>) = Inl TypeError
   \<and> Query_init Map.empty
        (default_args\<lparr>ancestor := PyKey (Key (Some (IntId 7)) ''app'' (Some ''ns'')),
           app := Some ''app''\<rparr>)
     = Inr \<lparr>q_kind = None,
            q_ancestor = PyKey (Key (Some (IntId 7)) ''app'' (Some ''ns'')),
            q_filters = PyNone, q_orders = PyNone, q_app = Some ''app'',
            q_namespace = Some ''ns'', q_default_options = PyNone, q_projection = PyNone,
            q_group_by = PyNone\<rparr>"
proof -
  let ?k = "Key (Some (IntId 7)) ''app'' (Some ''ns'')"
  have 1: "ancestor (default_args\<lparr>ancestor := PyKey (Key None ''app'' None)\<rparr>)
             = PyKey (Key None ''app'' None)"
    and 2: "ancestor (default_args\<lparr>ancestor := PyKey ?k, app := Some ''other''\<rparr>) = PyKey ?k"
    and 3: "ancestor (default_args\<lparr>ancestor := PyKey ?k, namespace := Some ''other''\<rparr>) = PyKey ?k"
    and 4: "ancestor (default_args\<lparr>ancestor := PyKey ?k, app := Some ''app''\<rparr>) = PyKey ?k"
    by simp_all
  have ok: "Query_init Map.empty (default_args\<lparr>ancestor := PyKey ?k, app := Some ''app''\<rparr>)
     = Inr \<lparr>q_kind = None, q_ancestor = PyKey ?k, q_filters = PyNone, q_orders = PyNone,
            q_app = Some ''app'', q_namespace = Some ''ns'', q_default_options = PyNone,
            q_projection = PyNone, q_group_by = PyNone\<rparr>"
    by (simp add: Query_init_def default_args_def validators)
  show ?thesis
    using Query_ancestor_key_validation [OF 1, of Map.empty]
      Query_ancestor_key_validation [OF 2, of Map.empty]
      Query_ancestor_key_validation [OF 3, of Map.empty]
      Query_ancestor_key_validation [OF 4, of Map.empty] ok
    by (simp add: default_args_def id_truthy_def)
qed

text \<open>
  Claim C5. In a constructed query, the namespace is the namespace of the ancestor when the
  ancestor is a key and the \<^verbatim>\<open>namespace\<close> argument is \<^verbatim>\<open>None\<close>; a namespace that is
  given is kept as given.
\<close>

theorem Query_namespace_default:
  assumes "Query_init km a = Inr q"
  shows "(\<forall>k. namespace a = None \<and> ancestor a = PyKey k \<longrightarrow> q_namespace q = Key_namespace k)
       \<and> (namespace a \<noteq> None \<longrightarrow> q_namespace q = namespace a)"
proof -
  have "q_namespace q = validate_namespace (namespace a) (ancestor a)"
    using assms by (rule Query_init_Inr(7))
  then show ?thesis
    by (auto simp: validate_namespace_def split: option.splits pyval.splits)
qed

text \<open>A query that takes the namespace of its ancestor, and one whose namespace is given.\<close>

theorem Query_namespace_default_witness:
  "Query_init Map.empty
     (default_args\<lparr>ancestor := PyKey (Key (Some (StrId ''rex'')) ''app'' (Some ''ns''))\<rparr>)
     = Inr \<lparr>q_kind = None,
            q_ancestor = PyKey (Key (Some (StrId ''rex'')) ''app'' (Some ''ns'')),
            q_filters = PyNone, q_orders = PyNone, q_app = None, q_namespace = Some ''ns'',
            q_default_options = PyNone, q_projection = PyNone, q_group_by = PyNone\<rparr>
   \<and> Query_init Map.empty (default_args\<lparr>namespace := Some ''explicit''\<rparr>)
     = Inr \<lparr>q_kind = None, q_ancestor = PyNone, q_filters = PyNone, q_orders = PyNone,
            q_app = None, q_namespace = Some ''explicit'', q_default_options = PyNone,
            q_projection = PyNone, q_group_by = PyNone\<rparr>"
proof -
  let ?k = "Key (Some (StrId ''rex'')) ''app'' (Some ''ns'')"
  have 1: "Query_init Map.empty (default_args\<lparr>ancestor := PyKey ?k\<rparr>)
     = Inr \<lparr>q_kind = None, q_ancestor = PyKey ?k, q_filters = PyNone, q_orders = PyNone,
            q_app = None, q_namespace = Some ''ns'', q_default_options = PyNone,
            q_projection = PyNone, q_group_by = PyNone\<rparr>"
    by (simp add: Query_init_def default_args_def validators)
  have 2: "Query_init Map.empty (default_args\<lparr>namespace := Some ''explicit''\<rparr>)
     = Inr \<lparr>q_kind = None, q_ancestor = PyNone, q_filters = PyNone, q_orders = PyNone,
            q_app = None, q_namespace = Some ''explicit'', q_default_options = PyNone,
            q_projection = PyNone, q_group_by = PyNone\<rparr>"
    by (simp add: Query_init_def default_args_def validators)
  show ?thesis
    using 1 2 Query_namespace_default [OF 1] Query_namespace_default [OF 2] by simp
qed

text \<open>
  Claim C6. A constructed query has a \<^verbatim>\<open>filters\<close> argument that is \<^verbatim>\<open>None\<close> or a
  node, stored as it was given. Any other value is refused by \<^verbatim>\<open>_validate_filters\<close>
  with \<^verbatim>\<open>TypeError\<close>, and the constructor then raises \<^verbatim>\<open>TypeError\<close>, or the
  \<^verbatim>\<open>ValueError\<close> of an incomplete ancestor key, which is checked first (both are the
  specification's InvalidArgument). With every other argument left at its default,
  \<^verbatim>\<open>Query(filters=f)\<close> returns a query with filters \<open>f\<close> when \<open>f\<close> is \<^verbatim>\<open>None\<close> or a
  node, and raises \<^verbatim>\<open>TypeError\<close> otherwise.
\<close>

theorem Query_filters_validation:
  "(\<forall>q. Query_init km a = Inr q \<longrightarrow>
       (filters a = PyNone \<or> (\<exists>c. filters a = PyNode c)) \<and> q_filters q = filters a)
   \<and> (filters a \<noteq> PyNone \<and> (\<forall>c. filters a \<noteq> PyNode c) \<longrightarrow>
         validate_filters (filters a) = Inl TypeError
       \<and> (Query_init km a = Inl TypeError \<or> Query_init km a = Inl ValueError)
       \<and> ((\<forall>k. ancestor a \<noteq> PyKey k) \<longrightarrow> Query_init km a = Inl TypeError))
   \<and> (f = PyNone \<or> (\<exists>c. f = PyNode c) \<longrightarrow>
         validate_filters f = Inr f
       \<and> (\<exists>q. Query_init km (default_args\<lparr>filters := f\<rparr>) = Inr q \<and> q_filters q = f))
   \<and> (f \<noteq> PyNone \<and> (\<forall>c. f \<noteq> PyNode c) \<longrightarrow>
         Query_init km (default_args\<lparr>filters := f\<rparr>) = Inl TypeError)"
proof -
  have node: "isinstance_Node v \<longleftrightarrow> (\<exists>c. v = PyNode c)" for v
    by (auto simp: isinstance_Node_def split: pyval.splits)
  have 1: "(filters a = PyNone \<or> (\<exists>c. filters a = PyNode c)) \<and> q_filters q = filters a"
    if "Query_init km a = Inr q" for q
    using Query_init_Inr(2) [OF that] validate_filters_Inr [of "filters a" "q_filters q"] node
    by auto
  have 2: "validate_filters (filters a) = Inl TypeError
       \<and> (Query_init km a = Inl TypeError \<or> Query_init km a = Inl ValueError)
       \<and> ((\<forall>k. ancestor a \<noteq> PyKey k) \<longrightarrow> Query_init km a = Inl TypeError)"
    if bad: "filters a \<noteq> PyNone \<and> (\<forall>c. filters a \<noteq> PyNode c)"
  proof -
    have f: "validate_filters (filters a) = Inl TypeError"
      using bad by (simp add: validate_filters_def node)
    show ?thesis
    proof (cases "validate_ancestor (ancestor a) (app a) (namespace a)")
      case (Inl e)
      then have q: "Query_init km a = Inl e" by (rule Query_init_ancestor_error)
      have "e = TypeError \<or> e = ValueError" using Inl by (rule validate_ancestor_Inl)
      moreover have "e = TypeError" if "\<forall>k. ancestor a \<noteq> PyKey k"
        using Inl that by (auto simp: validate_ancestor_def split: pyval.splits if_splits)
      ultimately show ?thesis using f q by auto
    next
      case (Inr v)
      then have "Query_init km a = Inl TypeError" using f by (rule Query_init_filters_error)
      then show ?thesis using f by simp
    qed
  qed
  have 3: "validate_filters f = Inr f
       \<and> (\<exists>q. Query_init km (default_args\<lparr>filters := f\<rparr>) = Inr q \<and> q_filters q = f)"
    if "f = PyNone \<or> (\<exists>c. f = PyNode c)"
    using that
    by (auto simp: Query_init_def default_args_def validate_ancestor_def validate_filters_def
        validate_orders_def validate_default_options_def validate_projection_def
        validate_group_by_def isinstance_Node_def)
  have 4: "Query_init km (default_args\<lparr>filters := f\<rparr>) = Inl TypeError"
    if "f \<noteq> PyNone \<and> (\<forall>c. f \<noteq> PyNode c)"
    using that
    by (simp add: Query_init_def default_args_def validate_ancestor_def validate_filters_def node)
  from 1 2 3 4 show ?thesis by blast
qed

text \<open>A string is refused, a filter node is accepted and stored.\<close>

theorem Query_filters_validation_witness:
  "Query_init Map.empty (default_args\<lparr>filters := PyStr ''species = cat''\<rparr>) = Inl TypeError
   \<and> validate_filters (PyNode FilterNode) = Inr (PyNode FilterNode)
   \<and> Query_init Map.empty (default_args\<lparr>filters := PyNode FilterNode\<rparr>)
     = Inr \<lparr>q_kind = None, q_ancestor = PyNone, q_filters = PyNode FilterNode,
            q_orders = PyNone, q_app = None, q_namespace = None, q_default_options = PyNone,
            q_projection = PyNone, q_group_by = PyNone\<rparr>"
proof -
  have ok: "Query_init Map.empty (default_args\<lparr>filters := PyNode FilterNode\<rparr>)
     = Inr \<lparr>q_kind = None, q_ancestor = PyNone, q_filters = PyNode FilterNode,
            q_orders = PyNone, q_app = None, q_namespace = None, q_default_options = PyNone,
            q_projection = PyNone, q_group_by = PyNone\<rparr>"
    by (simp add: Query_init_def default_args_def validators)
  show ?thesis
    using ok
      Query_filters_validation [of Map.empty default_args "PyStr ''species = cat''"]
      Query_filters_validation [of Map.empty "default_args\<lparr>filters := PyNode FilterNode\<rparr>"
        "PyNode FilterNode"]
    by simp
qed

text \<open>
  Claim C7. A constructed query has \<^verbatim>\<open>orders\<close> and \<^verbatim>\<open>default_options\<close> equal to
  \<^verbatim>\<open>None\<close>. Any other value \<open>x\<close> is refused by \<^verbatim>\<open>_validate_orders\<close> and by
  \<^verbatim>\<open>_validate_default_options\<close> with \<^verbatim>\<open>NotImplementedError\<close> (the specification's
  NotSupportedError), and \<^verbatim>\<open>Query(orders=x)\<close> and \<^verbatim>\<open>Query(default_options=x)\<close> raise
  it. In general the constructor fails whenever one of the two is not \<^verbatim>\<open>None\<close>, and the
  exception is \<^verbatim>\<open>NotImplementedError\<close> whenever the two arguments validated before
  them, the ancestor and the filters, are valid.
\<close>

theorem Query_orders_default_options_validation:
  "(\<forall>q. Query_init km a = Inr q \<longrightarrow>
       orders a = PyNone \<and> default_options a = PyNone
     \<and> q_orders q = PyNone \<and> q_default_options q = PyNone)
   \<and> (x \<noteq> PyNone \<longrightarrow>
         validate_orders x = Inl NotImplementedError
       \<and> validate_default_options x = Inl NotImplementedError
       \<and> Query_init km (default_args\<lparr>orders := x\<rparr>) = Inl NotImplementedError
       \<and> Query_init km (default_args\<lparr>default_options := x\<rparr>) = Inl NotImplementedError)
   \<and> (orders a \<noteq> PyNone \<or> default_options a \<noteq> PyNone \<longrightarrow>
         (\<exists>e. Query_init km a = Inl e)
       \<and> ((\<exists>v. validate_ancestor (ancestor a) (app a) (namespace a) = Inr v)
            \<and> (\<exists>v. validate_filters (filters a) = Inr v)
          \<longrightarrow> Query_init km a = Inl NotImplementedError))"
proof -
  have 1: "orders a = PyNone \<and> default_options a = PyNone
     \<and> q_orders q = PyNone \<and> q_default_options q = PyNone"
    if "Query_init km a = Inr q" for q
    using validate_orders_Inr [OF Query_init_Inr(3) [OF that]]
      validate_default_options_Inr [OF Query_init_Inr(4) [OF that]]
    by simp
  have 2: "validate_orders x = Inl NotImplementedError
       \<and> validate_default_options x = Inl NotImplementedError
       \<and> Query_init km (default_args\<lparr>orders := x\<rparr>) = Inl NotImplementedError
       \<and> Query_init km (default_args\<lparr>default_options := x\<rparr>) = Inl NotImplementedError"
    if "x \<noteq> PyNone"
    using that
    by (simp add: Query_init_def default_args_def validate_ancestor_def validate_filters_def
        validate_orders_def validate_default_options_def)
  have 3: "Query_init km a = Inl NotImplementedError"
    if bad: "orders a \<noteq> PyNone \<or> default_options a \<noteq> PyNone"
      and v: "validate_ancestor (ancestor a) (app a) (namespace a) = Inr v"
      and f: "validate_filters (filters a) = Inr w" for v w
  proof (cases "orders a = PyNone")
    case True
    then have o: "validate_orders (orders a) = Inr PyNone" by (simp add: validate_orders_def)
    from True bad have "validate_default_options (default_options a) = Inl NotImplementedError"
      by (simp add: validate_default_options_def)
    with v f o show ?thesis by (rule Query_init_default_options_error)
  next
    case False
    then have "validate_orders (orders a) = Inl NotImplementedError"
      by (simp add: validate_orders_def)
    with v f show ?thesis by (rule Query_init_orders_error)
  qed
  have 4: "\<exists>e. Query_init km a = Inl e"
    if bad: "orders a \<noteq> PyNone \<or> default_options a \<noteq> PyNone"
  proof (cases "Query_init km a")
    case (Inl e)
    then show ?thesis by blast
  next
    case (Inr q)
    with 1 bad show ?thesis by blast
  qed
  from 1 2 3 4 show ?thesis by blast
qed

text \<open>Orders and options that are not \<^verbatim>\<open>None\<close>, alone and next to a valid filter.\<close>

theorem Query_orders_default_options_validation_witness:
  "Query_init Map.empty (default_args\<lparr>orders := PyStr ''-name''\<rparr>) = Inl NotImplementedError
   \<and> Query_init Map.empty (default_args\<lparr>default_options := PyOther True\<rparr>)
       = Inl NotImplementedError
   \<and> Query_init Map.empty (default_args\<lparr>filters := PyNode FilterNode, orders := PyInt 0\<rparr>)
       = Inl NotImplementedError"
proof -
  let ?a = "default_args\<lparr>filters := PyNode FilterNode, orders := PyInt 0\<rparr>"
  have n1: "PyStr ''-name'' \<noteq> PyNone" and n2: "PyOther True \<noteq> PyNone"
    by simp_all
  have bad: "orders ?a \<noteq> PyNone \<or> default_options ?a \<noteq> PyNone"
    by simp
  have valid: "(\<exists>v. validate_ancestor (ancestor ?a) (app ?a) (namespace ?a) = Inr v)
      \<and> (\<exists>v. validate_filters (filters ?a) = Inr v)"
    by (simp add: default_args_def validate_ancestor_def validate_filters_def isinstance_Node_def)
  have 1: "Query_init Map.empty (default_args\<lparr>orders := PyStr ''-name''\<rparr>)
      = Inl NotImplementedError"
    using Query_orders_default_options_validation
      [of Map.empty default_args "PyStr ''-name''", THEN conjunct2, THEN conjunct1, THEN mp, OF n1]
    by (rule conjunct2 [THEN conjunct2, THEN conjunct1])
  have 2: "Query_init Map.empty (default_args\<lparr>default_options := PyOther True\<rparr>)
      = Inl NotImplementedError"
    using Query_orders_default_options_validation
      [of Map.empty default_args "PyOther True", THEN conjunct2, THEN conjunct1, THEN mp, OF n2]
    by (rule conjunct2 [THEN conjunct2, THEN conjunct2])
  have 3: "Query_init Map.empty ?a = Inl NotImplementedError"
    using Query_orders_default_options_validation
      [of Map.empty ?a PyNone, THEN conjunct2, THEN conjunct2, THEN mp, OF bad, THEN conjunct2,
        THEN mp, OF valid] .
  from 1 2 3 show ?thesis by (intro conjI)
qed



section \<open>The filter tree is not implemented\<close>

text \<open>
  Claim C9, as amended. The specification says that AND of a node with a \<^verbatim>\<open>FalseNode\<close>
  is a \<^verbatim>\<open>FalseNode\<close> and that AND of two conjunctions is one flattened conjunction.
  In this module \<^verbatim>\<open>ConjunctionNode\<close> (and its alias \<^verbatim>\<open>AND\<close>) and \<^verbatim>\<open>FalseNode\<close>
  are not implemented: with any arguments their constructors raise
  \<^verbatim>\<open>NotImplementedError\<close>, so no combination returns a node.
\<close>

theorem ConjunctionNode_unimplemented:
  "ConjunctionNode_init args kwargs = Inl NotImplementedError
   \<and> AND args kwargs = Inl NotImplementedError
   \<and> FalseNode_init args kwargs = Inl NotImplementedError"
  by (simp add: ConjunctionNode_init_def AND_def FalseNode_init_def)

text \<open>
  \<^verbatim>\<open>FalseNode()\<close> raises; AND of a filter node and a \<^verbatim>\<open>FalseNode\<close> instance raises
  and does not return a \<^verbatim>\<open>FalseNode\<close>; AND of two conjunctions raises and does not
  return a conjunction.
\<close>

theorem AND_FalseNode_counterexample:
  "FalseNode_init [] [] = Inl NotImplementedError
   \<and> AND [PyNode FilterNode, PyNode FalseNode] [] = Inl NotImplementedError
   \<and> AND [PyNode FilterNode, PyNode FalseNode] [] \<noteq> Inr (PyNode FalseNode)
   \<and> AND [PyNode ConjunctionNode, PyNode ConjunctionNode] [] \<noteq> Inr (PyNode ConjunctionNode)"
  by (simp add: ConjunctionNode_init_def AND_def FalseNode_init_def)

end
